theory Spec2Isabelle
  imports Complex_Main "HOL-Library.Word"
begin

section \<open>Wire values\<close>

text \<open>
  The message classes of \<^verbatim>\<open>cloud_common.protocols.unit\<close> are pydantic (version 2) models:
  \<^verbatim>\<open>desired_status.py\<close> imports \<^verbatim>\<open>field_serializer\<close> and \<^verbatim>\<open>Base64Bytes\<close>, which only
  version 2 has. A model is decoded from a parsed JSON document. The parsed document is a
  \<open>json\<close> value; an object keeps its members in document order, and a key that occurs twice
  takes its last value, as the JSON parser does.
\<close>

text \<open>
  A JSON number written with a fraction or an exponent is parsed to a Python \<^verbatim>\<open>float\<close>. A
  finite float is the rational number it denotes; the parser also reads the three
  non-finite ones. Python compares a float with an integer exactly, so a float equals the
  integer \<open>i\<close> when it is finite and its value is \<open>i\<close>.
\<close>

datatype float64 = Finite rat | PosInf | NegInf | NaN

fun float_int_value :: "float64 \<Rightarrow> int option" where
  "float_int_value (Finite q) = (if of_int \<lfloor>q\<rfloor> = q then Some \<lfloor>q\<rfloor> else None)"
| "float_int_value f = None"

datatype json =
    JNull
  | JBool bool
  | JInt int
  | JFloat float64
  | JStr string
  | JArr "json list"
  | JObj "(string \<times> json) list"

type_synonym bytes = "8 word list"

definition obj_get :: "string \<Rightarrow> (string \<times> json) list \<Rightarrow> json option" where
  "obj_get k kvs = map_of (rev kvs) k"

section \<open>Validation errors\<close>

text \<open>
  A failed decode raises \<^verbatim>\<open>ValidationError\<close>, which carries one entry per violation: the
  error type and the location, a path of wire names and list indices. Decoding returns
  \<open>Inl\<close> of the entries, or \<open>Inr\<close> of the record.
\<close>

datatype loc_item = Key string | Idx nat

datatype error = Error (err_type: string) (loc: "loc_item list")

type_synonym 'a res = "error list + 'a"

definition fail :: "string \<Rightarrow> 'a res" where
  "fail t = Inl [Error t []]"

definition lift_err :: "string + 'a \<Rightarrow> 'a res" where
  "lift_err r = (case r of Inl t \<Rightarrow> fail t | Inr v \<Rightarrow> Inr v)"

definition errors_of :: "'a res \<Rightarrow> error list" where
  "errors_of r = (case r of Inl es \<Rightarrow> es | Inr v \<Rightarrow> [])"

definition at_loc :: "loc_item \<Rightarrow> 'a res \<Rightarrow> 'a res" where
  "at_loc l r =
     (case r of
        Inl es \<Rightarrow> Inl (map (\<lambda>e. Error (err_type e) (l # loc e)) es)
      | Inr v \<Rightarrow> Inr v)"

text \<open>
  A model validates every declared field and reports the violations of all of them
  together, in field order; the record is built only when no field failed.
\<close>

fun ap :: "('a \<Rightarrow> 'b) res \<Rightarrow> 'a res \<Rightarrow> 'b res" where
  "ap (Inr f) (Inr x) = Inr (f x)"
| "ap (Inr f) (Inl es) = Inl es"
| "ap (Inl es) (Inr x) = Inl es"
| "ap (Inl es) (Inl es') = Inl (es @ es')"

text \<open>
  A field is looked up under its wire name: the alias when the field declares one, its own
  name otherwise. A field with no default is required. A field with a default takes the
  default, unvalidated, when the key is absent; a key that is present is validated against
  the annotated type, also when its value is \<open>null\<close>.
\<close>

definition required :: "string \<Rightarrow> (json \<Rightarrow> 'a res) \<Rightarrow> (string \<times> json) list \<Rightarrow> 'a res" where
  "required alias v kvs =
     (case obj_get alias kvs of
        None \<Rightarrow> Inl [Error ''missing'' [Key alias]]
      | Some j \<Rightarrow> at_loc (Key alias) (v j))"

definition with_default ::
  "string \<Rightarrow> 'a \<Rightarrow> (json \<Rightarrow> 'a res) \<Rightarrow> (string \<times> json) list \<Rightarrow> 'a res" where
  "with_default alias d v kvs =
     (case obj_get alias kvs of
        None \<Rightarrow> Inr d
      | Some j \<Rightarrow> at_loc (Key alias) (v j))"

section \<open>External declarations\<close>

text \<open>
  Values of \<^verbatim>\<open>datetime.time\<close> and \<^verbatim>\<open>datetime.datetime\<close>, with the UTC offset in seconds when
  the value carries one.
\<close>

datatype time = Time (hour: nat) (minute: nat) (second: nat) (microsecond: nat)
  (utcoffset: "int option")

datatype datetime = Datetime (year: nat) (month: nat) (day: nat) (time_of_day: time)

text \<open>
  Modelled from the spec: \<^verbatim>\<open>AosSensitiveBytes\<close> of \<^verbatim>\<open>cloud_common.protocols.unit.types\<close>,
  which is not among the sources. The spec describes it as a byte buffer protected from
  accidental disclosure: its default textual representation never reveals the underlying
  bytes, and an explicit reveal accessor (\<^verbatim>\<open>get_secret_value\<close> in \<^verbatim>\<open>dump_secret\<close>) is the only
  path to them. The textual representation is therefore a fixed mask.
\<close>

datatype AosSensitiveBytes = AosSensitiveBytes (get_secret_value: bytes)

definition repr_AosSensitiveBytes :: "AosSensitiveBytes \<Rightarrow> string" where
  "repr_AosSensitiveBytes s = ''AosSensitiveBytes(b'' @ [CHR 0x27] @ ''**********'' @ [CHR 0x27] @ '')''"

text \<open>
  What the three modules use and do not define is collected in one record, and every
  decoder takes it as a parameter, so that each theorem holds for whatever these are:
  \<^item> the coercions of the validation library that depend on its version: integers read
    from strings and from floats (lax mode), times, timestamps and base64 payloads, each
    giving the error type or the value; whether the lookup of a \<^verbatim>\<open>Literal\<close> falls back on
    Python's hash and equality (\<open>literal_by_equality\<close>: it does from pydantic 2.10 on, and
    not before); and Python's \<^verbatim>\<open>repr\<close> of strings and bytes;
  \<^item> \<^verbatim>\<open>DataSizes.DATA_LENGTH_256\<close> of \<^verbatim>\<open>cloud_common.protocols.unit.constants\<close>;
  \<^item> the annotated field types of \<^verbatim>\<open>cloud_common.protocols.unit.types\<close>. Such a type
    carries the field's alias, default and constraints, so it is a function from the
    members of the object to the field's value or its violations;
  \<^item> \<^verbatim>\<open>UnitConfig\<close> of \<^verbatim>\<open>cloud_common.protocols.unit.unit_config\<close>, a model.
  The values of the external types are of type \<open>'v\<close>.
\<close>

record 'v ext =
  str_as_int :: "string \<Rightarrow> string + int"
  float_as_int :: "float64 \<Rightarrow> string + int"
  literal_by_equality :: bool
  validate_time :: "json \<Rightarrow> string + time"
  validate_datetime :: "json \<Rightarrow> string + datetime"
  validate_Base64Bytes :: "json \<Rightarrow> string + bytes"
  serialize_Base64Bytes :: "bytes \<Rightarrow> string"
  repr_str :: "string \<Rightarrow> string"
  repr_bytes :: "bytes \<Rightarrow> string"
  DATA_LENGTH_256 :: nat
  validate_AosSensitiveBytes :: "json \<Rightarrow> string + AosSensitiveBytes"
  TypeAosFileSize :: "(string \<times> json) list \<Rightarrow> 'v res"
  TypeAosSha256 :: "(string \<times> json) list \<Rightarrow> 'v res"
  TypeAosUrlsList :: "(string \<times> json) list \<Rightarrow> 'v res"
  TypeComponentAnnotationsOptional :: "(string \<times> json) list \<Rightarrow> 'v res"
  TypeComponentType :: "(string \<times> json) list \<Rightarrow> 'v res"
  TypeLayerIdMandatory :: "(string \<times> json) list \<Rightarrow> 'v res"
  TypeProviderIdMandatory :: "(string \<times> json) list \<Rightarrow> 'v res"
  TypeServiceIdMandatory :: "(string \<times> json) list \<Rightarrow> 'v res"
  TypeVersionMandatory :: "(string \<times> json) list \<Rightarrow> 'v res"
  TypeComponentId :: "(string \<times> json) list \<Rightarrow> 'v res"
  TypeServiceServiceIdMandatory :: "(string \<times> json) list \<Rightarrow> 'v res"
  TypeNodeIdMandatory :: "(string \<times> json) list \<Rightarrow> 'v res"
  TypeNodeDesiredStatus :: "(string \<times> json) list \<Rightarrow> 'v res"
  TypeLayerDigest :: "(string \<times> json) list \<Rightarrow> 'v res"
  TypeSubjectSubjectIdMandatory :: "(string \<times> json) list \<Rightarrow> 'v res"
  TypeInstanceNoMandatory :: "(string \<times> json) list \<Rightarrow> 'v res"
  TypeAosSystemIdMandatory :: "(string \<times> json) list \<Rightarrow> 'v res"
  UnitConfig :: "json \<Rightarrow> 'v res"

section \<open>Field types\<close>

text \<open>
  \<^verbatim>\<open>Literal[...]\<close>: the value must be one of the listed literals, with no coercion. Only a
  JSON string matches a string literal. A JSON integer matches the integer literal it is.
  Where the lookup falls back on Python's hash and equality, a value that Python holds
  equal to an integer literal matches it too and decodes to the literal: the float \<^verbatim>\<open>6.0\<close>
  to 6, and \<^verbatim>\<open>true\<close> and \<^verbatim>\<open>false\<close> to 1 and 0. Nothing else matches.
\<close>

fun literal_str :: "string list \<Rightarrow> json \<Rightarrow> string res" where
  "literal_str vs (JStr s) = (if s \<in> set vs then Inr s else fail ''literal_error'')"
| "literal_str vs j = fail ''literal_error''"

fun literal_value :: "'v ext \<Rightarrow> json \<Rightarrow> int option" where
  "literal_value E (JInt i) = Some i"
| "literal_value E (JBool b) =
     (if literal_by_equality E then Some (if b then 1 else 0) else None)"
| "literal_value E (JFloat f) = (if literal_by_equality E then float_int_value f else None)"
| "literal_value E j = None"

definition literal_int :: "'v ext \<Rightarrow> int list \<Rightarrow> json \<Rightarrow> int res" where
  "literal_int E vs j =
     (case literal_value E j of
        None \<Rightarrow> fail ''literal_error''
      | Some i \<Rightarrow> (if i \<in> set vs then Inr i else fail ''literal_error''))"

text \<open>
  \<^verbatim>\<open>int\<close>: a JSON integer is taken as it is (Python integers are unbounded). In lax mode,
  the default, a boolean counts as 0 or 1, and a float or a string is coerced when it
  denotes an integer. The bounds of \<^verbatim>\<open>Field(ge=, gt=, le=, lt=)\<close> are checked on the result.
\<close>

datatype bound = Ge int | Gt int | Le int | Lt int

fun check_bound :: "bound \<Rightarrow> int \<Rightarrow> string option" where
  "check_bound (Ge b) i = (if i \<ge> b then None else Some ''greater_than_equal'')"
| "check_bound (Gt b) i = (if i > b then None else Some ''greater_than'')"
| "check_bound (Le b) i = (if i \<le> b then None else Some ''less_than_equal'')"
| "check_bound (Lt b) i = (if i < b then None else Some ''less_than'')"

fun check_bounds :: "bound list \<Rightarrow> int \<Rightarrow> int res" where
  "check_bounds [] i = Inr i"
| "check_bounds (b # bs) i =
     (case check_bound b i of Some t \<Rightarrow> fail t | None \<Rightarrow> check_bounds bs i)"

fun coerce_int :: "'v ext \<Rightarrow> json \<Rightarrow> int res" where
  "coerce_int E (JInt i) = Inr i"
| "coerce_int E (JBool b) = Inr (if b then 1 else 0)"
| "coerce_int E (JFloat f) = lift_err (float_as_int E f)"
| "coerce_int E (JStr s) = lift_err (str_as_int E s)"
| "coerce_int E j = fail ''int_type''"

definition validate_int :: "'v ext \<Rightarrow> bound list \<Rightarrow> json \<Rightarrow> int res" where
  "validate_int E bs j =
     (case coerce_int E j of Inl es \<Rightarrow> Inl es | Inr i \<Rightarrow> check_bounds bs i)"

text \<open>\<^verbatim>\<open>str\<close>, with \<^verbatim>\<open>min_length\<close> and \<^verbatim>\<open>max_length\<close>: only a JSON string is a string.\<close>

fun validate_str :: "nat option \<Rightarrow> nat option \<Rightarrow> json \<Rightarrow> string res" where
  "validate_str min_length max_length (JStr s) =
     (if (case min_length of Some m \<Rightarrow> length s < m | None \<Rightarrow> False)
        then fail ''string_too_short''
      else if (case max_length of Some m \<Rightarrow> m < length s | None \<Rightarrow> False)
        then fail ''string_too_long''
      else Inr s)"
| "validate_str min_length max_length j = fail ''string_type''"

text \<open>
  \<^verbatim>\<open>list[T]\<close>, with \<^verbatim>\<open>min_length\<close> (\<^verbatim>\<open>min_items\<close> is its deprecated name, still honoured):
  only a JSON array is a list; each item is validated under its index, and the length is
  checked when every item is valid.
\<close>

fun validate_items :: "(json \<Rightarrow> 'a res) \<Rightarrow> nat \<Rightarrow> json list \<Rightarrow> 'a list res" where
  "validate_items v i [] = Inr []"
| "validate_items v i (j # js) =
     ap (ap (Inr (#)) (at_loc (Idx i) (v j))) (validate_items v (Suc i) js)"

fun validate_list :: "nat option \<Rightarrow> (json \<Rightarrow> 'a res) \<Rightarrow> json \<Rightarrow> 'a list res" where
  "validate_list min_length v (JArr js) =
     (case validate_items v 0 js of
        Inl es \<Rightarrow> Inl es
      | Inr xs \<Rightarrow>
          (if (case min_length of Some m \<Rightarrow> length xs < m | None \<Rightarrow> False)
             then fail ''too_short''
           else Inr xs))"
| "validate_list min_length v j = fail ''list_type''"

section \<open>header.py\<close>

record 'v AosUnitHeader =
  version :: int
  system_id :: 'v

fun decode_AosUnitHeader :: "'v ext \<Rightarrow> json \<Rightarrow> 'v AosUnitHeader res" where
  "decode_AosUnitHeader E (JObj kvs) =
     ap (ap (Inr (\<lambda>v s. \<lparr>version = v, system_id = s\<rparr>))
       (required ''version'' (literal_int E [6]) kvs))
       (TypeAosSystemIdMandatory E kvs)"
| "decode_AosUnitHeader E j = fail ''model_type''"

section \<open>state.py\<close>

text \<open>
  \<^verbatim>\<open>AosUpdateState\<close> is a subclass of \<^verbatim>\<open>AosNewState\<close> that overrides \<^verbatim>\<open>message_type\<close> alone, so
  both have the same fields in the same order. The field \<^verbatim>\<open>instance\<close> is \<open>instance_no\<close> here
  (\<open>instance\<close> is a keyword of Isabelle).
\<close>

record 'v AosNewState =
  message_type :: string
  service_id :: 'v
  subject_id :: 'v
  instance_no :: 'v
  checksum :: string
  state :: string

type_synonym 'v AosUpdateState = "'v AosNewState"

definition state_fields ::
  "'v ext \<Rightarrow> string \<Rightarrow> (string \<times> json) list \<Rightarrow> 'v AosNewState res" where
  "state_fields E tag kvs =
     ap (ap (ap (ap (ap (ap
       (Inr (\<lambda>m s u i c t.
          \<lparr>message_type = m, service_id = s, subject_id = u, instance_no = i,
           checksum = c, state = t\<rparr>))
       (required ''messageType'' (literal_str [tag]) kvs))
       (TypeServiceServiceIdMandatory E kvs))
       (TypeSubjectSubjectIdMandatory E kvs))
       (TypeInstanceNoMandatory E kvs))
       (required ''stateChecksum'' (validate_str (Some 1) (Some (DATA_LENGTH_256 E))) kvs))
       (required ''state'' (validate_str (Some 0) None) kvs)"

fun decode_AosNewState :: "'v ext \<Rightarrow> json \<Rightarrow> 'v AosNewState res" where
  "decode_AosNewState E (JObj kvs) = state_fields E ''newState'' kvs"
| "decode_AosNewState E j = fail ''model_type''"

fun decode_AosUpdateState :: "'v ext \<Rightarrow> json \<Rightarrow> 'v AosUpdateState res" where
  "decode_AosUpdateState E (JObj kvs) = state_fields E ''updateState'' kvs"
| "decode_AosUpdateState E j = fail ''model_type''"

section \<open>desired_status.py\<close>

text \<open>
  A field keeps its name in the source unless two classes share the name or Isabelle
  reserves it; then the class is prefixed (\<open>component_version\<close>) or the name suffixed
  (\<open>end_\<close>, \<open>sign_value\<close>). Wire names are exactly those of the source. A field whose
  default is \<^verbatim>\<open>None\<close> holds an \<open>option\<close>.
\<close>

record AosReceiverInfo =
  serial :: string
  issuer :: bytes

fun decode_AosReceiverInfo :: "'v ext \<Rightarrow> json \<Rightarrow> AosReceiverInfo res" where
  "decode_AosReceiverInfo E (JObj kvs) =
     ap (ap (Inr (\<lambda>s i. \<lparr>serial = s, issuer = i\<rparr>))
       (required ''serial'' (validate_str None None) kvs))
       (required ''issuer'' (\<lambda>j. lift_err (validate_Base64Bytes E j)) kvs)"
| "decode_AosReceiverInfo E j = fail ''model_type''"

record AosDecryptionInfo =
  block_alg :: string
  block_iv :: AosSensitiveBytes
  block_key :: AosSensitiveBytes
  asym_alg :: string
  receiver_info :: AosReceiverInfo

fun decode_AosDecryptionInfo :: "'v ext \<Rightarrow> json \<Rightarrow> AosDecryptionInfo res" where
  "decode_AosDecryptionInfo E (JObj kvs) =
     ap (ap (ap (ap (ap
       (Inr (\<lambda>a i k s r.
          \<lparr>block_alg = a, block_iv = i, block_key = k, asym_alg = s, receiver_info = r\<rparr>))
       (with_default ''blockAlg'' ''AES256/CBC/pkcs7''
          (literal_str [''AES256/CBC/pkcs7'']) kvs))
       (required ''blockIv'' (\<lambda>j. lift_err (validate_AosSensitiveBytes E j)) kvs))
       (required ''blockKey'' (\<lambda>j. lift_err (validate_AosSensitiveBytes E j)) kvs))
       (with_default ''asymAlg'' ''RSA/PKCS1v1_5''
          (literal_str [''RSA/PKCS1v1_5'', ''RSA/PSS'']) kvs))
       (required ''receiverInfo'' (decode_AosReceiverInfo E) kvs)"
| "decode_AosDecryptionInfo E j = fail ''model_type''"

record AosCertificateInfo =
  certificate :: bytes
  fingerprint :: string

fun decode_AosCertificateInfo :: "'v ext \<Rightarrow> json \<Rightarrow> AosCertificateInfo res" where
  "decode_AosCertificateInfo E (JObj kvs) =
     ap (ap (Inr (\<lambda>c f. \<lparr>certificate = c, fingerprint = f\<rparr>))
       (required ''certificate'' (\<lambda>j. lift_err (validate_Base64Bytes E j)) kvs))
       (required ''fingerprint'' (validate_str None None) kvs)"
| "decode_AosCertificateInfo E j = fail ''model_type''"

record AosCertificateChainInfo =
  name :: string
  fingerprints :: "string list"

fun decode_AosCertificateChainInfo :: "json \<Rightarrow> AosCertificateChainInfo res" where
  "decode_AosCertificateChainInfo (JObj kvs) =
     ap (ap (Inr (\<lambda>n f. \<lparr>name = n, fingerprints = f\<rparr>))
       (required ''name'' (validate_str None None) kvs))
       (required ''fingerprints'' (validate_list None (validate_str None None)) kvs)"
| "decode_AosCertificateChainInfo j = fail ''model_type''"

record AosSign =
  chain_name :: string
  alg :: string
  sign_value :: bytes
  timestamp :: datetime
  ocsp_values :: "bytes option"

fun decode_AosSign :: "'v ext \<Rightarrow> json \<Rightarrow> AosSign res" where
  "decode_AosSign E (JObj kvs) =
     ap (ap (ap (ap (ap
       (Inr (\<lambda>c a v t oc.
          \<lparr>chain_name = c, alg = a, sign_value = v, timestamp = t, ocsp_values = oc\<rparr>))
       (required ''chainName'' (validate_str None None) kvs))
       (required ''alg'' (literal_str [''RSA/SHA256'', ''EC/SHA256'']) kvs))
       (required ''value'' (\<lambda>j. lift_err (validate_Base64Bytes E j)) kvs))
       (required ''trustedTimestamp'' (\<lambda>j. lift_err (validate_datetime E j)) kvs))
       (with_default ''ocspValues'' None
          (\<lambda>j. ap (Inr Some) (lift_err (validate_Base64Bytes E j))) kvs)"
| "decode_AosSign E j = fail ''model_type''"

record AosTimeSlot =
  start :: time
  end_ :: time

fun decode_AosTimeSlot :: "'v ext \<Rightarrow> json \<Rightarrow> AosTimeSlot res" where
  "decode_AosTimeSlot E (JObj kvs) =
     ap (ap (Inr (\<lambda>s e. \<lparr>start = s, end_ = e\<rparr>))
       (required ''start'' (\<lambda>j. lift_err (validate_time E j)) kvs))
       (required ''end'' (\<lambda>j. lift_err (validate_time E j)) kvs)"
| "decode_AosTimeSlot E j = fail ''model_type''"

record AosTimetableItem =
  day_of_week :: int
  time_slots :: "AosTimeSlot list"

fun decode_AosTimetableItem :: "'v ext \<Rightarrow> json \<Rightarrow> AosTimetableItem res" where
  "decode_AosTimetableItem E (JObj kvs) =
     ap (ap (Inr (\<lambda>d s. \<lparr>day_of_week = d, time_slots = s\<rparr>))
       (required ''dayOfWeek'' (validate_int E []) kvs))
       (required ''timeSlots'' (validate_list (Some 1) (decode_AosTimeSlot E)) kvs)"
| "decode_AosTimetableItem E j = fail ''model_type''"

record AosScheduleRule =
  ttl :: int
  type :: string
  timetable :: "AosTimetableItem list option"

fun decode_AosScheduleRule :: "'v ext \<Rightarrow> json \<Rightarrow> AosScheduleRule res" where
  "decode_AosScheduleRule E (JObj kvs) =
     ap (ap (ap (Inr (\<lambda>l t tt. \<lparr>ttl = l, type = t, timetable = tt\<rparr>))
       (required ''ttl'' (validate_int E []) kvs))
       (required ''type'' (literal_str [''force'', ''trigger'', ''timetable'']) kvs))
       (with_default ''timetable'' None
          (\<lambda>j. ap (Inr Some) (validate_list None (decode_AosTimetableItem E) j)) kvs)"
| "decode_AosScheduleRule E j = fail ''model_type''"

record 'v AosDesiredComponentInfo =
  component_id :: 'v
  component_type :: 'v
  component_version :: 'v
  annotations :: 'v
  component_urls :: 'v
  component_sha256 :: 'v
  component_size :: 'v
  component_decryption_info :: AosDecryptionInfo

fun decode_AosDesiredComponentInfo ::
  "'v ext \<Rightarrow> json \<Rightarrow> 'v AosDesiredComponentInfo res" where
  "decode_AosDesiredComponentInfo E (JObj kvs) =
     ap (ap (ap (ap (ap (ap (ap (ap
       (Inr (\<lambda>i t v a u h s d.
          \<lparr>component_id = i, component_type = t, component_version = v, annotations = a,
           component_urls = u, component_sha256 = h, component_size = s,
           component_decryption_info = d\<rparr>))
       (TypeComponentId E kvs))
       (TypeComponentType E kvs))
       (TypeVersionMandatory E kvs))
       (TypeComponentAnnotationsOptional E kvs))
       (TypeAosUrlsList E kvs))
       (TypeAosSha256 E kvs))
       (TypeAosFileSize E kvs))
       (required ''decryptionInfo'' (decode_AosDecryptionInfo E) kvs)"
| "decode_AosDesiredComponentInfo E j = fail ''model_type''"

record 'v AosDesiredLayerInfo =
  layer_id :: 'v
  layer_version :: 'v
  digest :: 'v
  layer_urls :: 'v
  layer_sha256 :: 'v
  layer_size :: 'v
  layer_decryption_info :: AosDecryptionInfo

fun decode_AosDesiredLayerInfo :: "'v ext \<Rightarrow> json \<Rightarrow> 'v AosDesiredLayerInfo res" where
  "decode_AosDesiredLayerInfo E (JObj kvs) =
     ap (ap (ap (ap (ap (ap (ap
       (Inr (\<lambda>i v g u h s d.
          \<lparr>layer_id = i, layer_version = v, digest = g, layer_urls = u,
           layer_sha256 = h, layer_size = s, layer_decryption_info = d\<rparr>))
       (TypeLayerIdMandatory E kvs))
       (TypeVersionMandatory E kvs))
       (TypeLayerDigest E kvs))
       (TypeAosUrlsList E kvs))
       (TypeAosSha256 E kvs))
       (TypeAosFileSize E kvs))
       (required ''decryptionInfo'' (decode_AosDecryptionInfo E) kvs)"
| "decode_AosDesiredLayerInfo E j = fail ''model_type''"

record 'v AosDesiredServiceInfo =
  desired_service_id :: 'v
  provider_id :: 'v
  desired_service_version :: 'v
  desired_service_urls :: 'v
  desired_service_sha256 :: 'v
  desired_service_size :: 'v
  desired_service_decryption_info :: AosDecryptionInfo

fun decode_AosDesiredServiceInfo :: "'v ext \<Rightarrow> json \<Rightarrow> 'v AosDesiredServiceInfo res" where
  "decode_AosDesiredServiceInfo E (JObj kvs) =
     ap (ap (ap (ap (ap (ap (ap
       (Inr (\<lambda>i p v u h s d.
          \<lparr>desired_service_id = i, provider_id = p, desired_service_version = v,
           desired_service_urls = u, desired_service_sha256 = h, desired_service_size = s,
           desired_service_decryption_info = d\<rparr>))
       (TypeServiceIdMandatory E kvs))
       (TypeProviderIdMandatory E kvs))
       (TypeVersionMandatory E kvs))
       (TypeAosUrlsList E kvs))
       (TypeAosSha256 E kvs))
       (TypeAosFileSize E kvs))
       (required ''decryptionInfo'' (decode_AosDecryptionInfo E) kvs)"
| "decode_AosDesiredServiceInfo E j = fail ''model_type''"

record 'v AosDesiredInstanceInfo =
  instance_service_id :: 'v
  instance_subject_id :: 'v
  priority :: int
  num_instances :: int
  labels :: "string list option"

fun decode_AosDesiredInstanceInfo ::
  "'v ext \<Rightarrow> json \<Rightarrow> 'v AosDesiredInstanceInfo res" where
  "decode_AosDesiredInstanceInfo E (JObj kvs) =
     ap (ap (ap (ap (ap
       (Inr (\<lambda>s u p n l.
          \<lparr>instance_service_id = s, instance_subject_id = u, priority = p,
           num_instances = n, labels = l\<rparr>))
       (TypeServiceServiceIdMandatory E kvs))
       (TypeSubjectSubjectIdMandatory E kvs))
       (required ''priority'' (validate_int E [Ge 0, Lt 1000000]) kvs))
       (with_default ''numInstances'' 1 (validate_int E [Gt 0]) kvs))
       (with_default ''labels'' None
          (\<lambda>j. ap (Inr Some) (validate_list None (validate_str None None) j)) kvs)"
| "decode_AosDesiredInstanceInfo E j = fail ''model_type''"

record 'v AosNodeDesiredState =
  node_id :: 'v
  node_state :: 'v

fun decode_AosNodeDesiredState :: "'v ext \<Rightarrow> json \<Rightarrow> 'v AosNodeDesiredState res" where
  "decode_AosNodeDesiredState E (JObj kvs) =
     ap (ap (Inr (\<lambda>n s. \<lparr>node_id = n, node_state = s\<rparr>))
       (TypeNodeIdMandatory E kvs))
       (TypeNodeDesiredStatus E kvs)"
| "decode_AosNodeDesiredState E j = fail ''model_type''"

record 'v AosDesiredStatus =
  status_message_type :: string
  nodes :: "'v AosNodeDesiredState list option"
  unit_config :: "'v option"
  components :: "'v AosDesiredComponentInfo list option"
  layers :: "'v AosDesiredLayerInfo list option"
  services :: "'v AosDesiredServiceInfo list option"
  instances :: "'v AosDesiredInstanceInfo list option"
  fota_schedule :: "AosScheduleRule option"
  sota_schedule :: "AosScheduleRule option"
  certificates :: "AosCertificateInfo list option"
  certificate_chains :: "AosCertificateChainInfo list option"

text \<open>
  A field annotated \<^verbatim>\<open>list[T]\<close> or with a model, with \<^verbatim>\<open>default=None\<close>: the default is the
  value of an absent key; a present key must hold a list (a model).
\<close>

definition optional_list ::
  "string \<Rightarrow> (json \<Rightarrow> 'a res) \<Rightarrow> (string \<times> json) list \<Rightarrow> 'a list option res" where
  "optional_list alias v kvs =
     with_default alias None (\<lambda>j. ap (Inr Some) (validate_list None v j)) kvs"

definition optional_model ::
  "string \<Rightarrow> (json \<Rightarrow> 'a res) \<Rightarrow> (string \<times> json) list \<Rightarrow> 'a option res" where
  "optional_model alias v kvs = with_default alias None (\<lambda>j. ap (Inr Some) (v j)) kvs"

fun decode_AosDesiredStatus :: "'v ext \<Rightarrow> json \<Rightarrow> 'v AosDesiredStatus res" where
  "decode_AosDesiredStatus E (JObj kvs) =
     ap (ap (ap (ap (ap (ap (ap (ap (ap (ap (ap
       (Inr (\<lambda>m n u c l s i f t ce ch.
          \<lparr>status_message_type = m, nodes = n, unit_config = u, components = c,
           layers = l, services = s, instances = i, fota_schedule = f,
           sota_schedule = t, certificates = ce, certificate_chains = ch\<rparr>))
       (required ''messageType'' (literal_str [''desiredStatus'']) kvs))
       (optional_list ''nodes'' (decode_AosNodeDesiredState E) kvs))
       (optional_model ''unitConfig'' (UnitConfig E) kvs))
       (optional_list ''components'' (decode_AosDesiredComponentInfo E) kvs))
       (optional_list ''layers'' (decode_AosDesiredLayerInfo E) kvs))
       (optional_list ''services'' (decode_AosDesiredServiceInfo E) kvs))
       (optional_list ''instances'' (decode_AosDesiredInstanceInfo E) kvs))
       (optional_model ''fotaSchedule'' (decode_AosScheduleRule E) kvs))
       (optional_model ''sotaSchedule'' (decode_AosScheduleRule E) kvs))
       (optional_list ''certificates'' (decode_AosCertificateInfo E) kvs))
       (optional_list ''certificateChains'' decode_AosCertificateChainInfo kvs)"
| "decode_AosDesiredStatus E j = fail ''model_type''"

section \<open>Serialization of \<^verbatim>\<open>AosDecryptionInfo\<close>\<close>

text \<open>
  \<^verbatim>\<open>base64.b64encode\<close> with the standard alphabet and \<open>=\<close> padding, three bytes to four
  characters, and the decoding of RFC 4648 that inverts it; \<open>None\<close> stands for
  \<^verbatim>\<open>binascii.Error\<close>. The ASCII text that \<^verbatim>\<open>b64encode\<close> returns is a \<open>string\<close>.
\<close>

definition b64_alphabet :: string where
  "b64_alphabet = ''ABCDEFGHIJKLMNOPQRSTUVWXYZabcdefghijklmnopqrstuvwxyz0123456789+/''"

definition b64_char :: "nat \<Rightarrow> char" where
  "b64_char n = b64_alphabet ! n"

definition b64_value :: "char \<Rightarrow> nat option" where
  "b64_value c = map_of (zip b64_alphabet [0..<64]) c"

fun b64encode :: "bytes \<Rightarrow> string" where
  "b64encode (a # b # c # bs) =
     (let n = unat a * 65536 + unat b * 256 + unat c in
      b64_char (n div 262144) # b64_char (n div 4096 mod 64) #
      b64_char (n div 64 mod 64) # b64_char (n mod 64) # b64encode bs)"
| "b64encode [a, b] =
     (let n = unat a * 65536 + unat b * 256 in
      [b64_char (n div 262144), b64_char (n div 4096 mod 64),
       b64_char (n div 64 mod 64), CHR ''=''])"
| "b64encode [a] =
     (let n = unat a * 65536 in
      [b64_char (n div 262144), b64_char (n div 4096 mod 64), CHR ''='', CHR ''=''])"
| "b64encode [] = []"

fun b64decode :: "string \<Rightarrow> bytes option" where
  "b64decode [] = Some []"
| "b64decode (p # q # r # s # cs) =
     (case (b64_value p, b64_value q) of
        (Some x0, Some x1) \<Rightarrow>
          (if r = CHR ''='' then
             (if s = CHR ''='' \<and> cs = [] then Some [of_nat ((x0 * 64 + x1) div 16)]
              else None)
           else
             (case b64_value r of
                None \<Rightarrow> None
              | Some x2 \<Rightarrow>
                  (if s = CHR ''='' then
                     (if cs = [] then
                        (let n = (x0 * 64 + x1) * 64 + x2 in
                         Some [of_nat (n div 1024), of_nat (n div 4 mod 256)])
                      else None)
                   else
                     (case b64_value s of
                        None \<Rightarrow> None
                      | Some x3 \<Rightarrow>
                          (case b64decode cs of
                             None \<Rightarrow> None
                           | Some bs \<Rightarrow>
                               (let n = ((x0 * 64 + x1) * 64 + x2) * 64 + x3 in
                                Some (of_nat (n div 65536) # of_nat (n div 256 mod 256) #
                                      of_nat (n mod 256) # bs)))))))
      | _ \<Rightarrow> None)"
| "b64decode cs = None"

text \<open>
  The field serializer of \<^verbatim>\<open>block_key\<close> and \<^verbatim>\<open>block_iv\<close>, used when the record is dumped in
  JSON mode (\<^verbatim>\<open>when_used='json'\<close>).
\<close>

definition dump_secret :: "AosSensitiveBytes \<Rightarrow> string" where
  "dump_secret struct_value = b64encode (get_secret_value struct_value)"

text \<open>
  The JSON-mode dump of a record, a dictionary in field order. The keys are the field names,
  or the aliases when the caller passes \<^verbatim>\<open>by_alias=True\<close>.
\<close>

definition wire_name :: "bool \<Rightarrow> string \<Rightarrow> string \<Rightarrow> string" where
  "wire_name by_alias field_name alias = (if by_alias then alias else field_name)"

definition dump_json_AosReceiverInfo :: "'v ext \<Rightarrow> AosReceiverInfo \<Rightarrow> (string \<times> json) list" where
  "dump_json_AosReceiverInfo E r =
     [(''serial'', JStr (serial r)),
      (''issuer'', JStr (serialize_Base64Bytes E (issuer r)))]"

definition dump_json_AosDecryptionInfo ::
  "'v ext \<Rightarrow> bool \<Rightarrow> AosDecryptionInfo \<Rightarrow> (string \<times> json) list" where
  "dump_json_AosDecryptionInfo E by_alias r =
     [(wire_name by_alias ''block_alg'' ''blockAlg'', JStr (block_alg r)),
      (wire_name by_alias ''block_iv'' ''blockIv'', JStr (dump_secret (block_iv r))),
      (wire_name by_alias ''block_key'' ''blockKey'', JStr (dump_secret (block_key r))),
      (wire_name by_alias ''asym_alg'' ''asymAlg'', JStr (asym_alg r)),
      (wire_name by_alias ''receiver_info'' ''receiverInfo'',
         JObj (dump_json_AosReceiverInfo E (receiver_info r)))]"

text \<open>
  The rendering of a record for diagnostics and logs, \<^verbatim>\<open>repr\<close>: the class name and each
  field with the \<^verbatim>\<open>repr\<close> of its value.
\<close>

definition repr_AosReceiverInfo :: "'v ext \<Rightarrow> AosReceiverInfo \<Rightarrow> string" where
  "repr_AosReceiverInfo E r =
     ''AosReceiverInfo(serial='' @ repr_str E (serial r) @
     '', issuer='' @ repr_bytes E (issuer r) @ '')''"

definition repr_AosDecryptionInfo :: "'v ext \<Rightarrow> AosDecryptionInfo \<Rightarrow> string" where
  "repr_AosDecryptionInfo E r =
     ''AosDecryptionInfo(block_alg='' @ repr_str E (block_alg r) @
     '', block_iv='' @ repr_AosSensitiveBytes (block_iv r) @
     '', block_key='' @ repr_AosSensitiveBytes (block_key r) @
     '', asym_alg='' @ repr_str E (asym_alg r) @
     '', receiver_info='' @ repr_AosReceiverInfo E (receiver_info r) @ '')''"

section \<open>An instance of the external declarations\<close>

text \<open>
  The theorems below hold for every \<open>'v ext\<close>. To evaluate the decoders on concrete
  documents, \<open>sample_ext\<close> fixes one: no integer is read from a string or a float; the
  lookup of a literal falls back on equality; a time is
  \<^verbatim>\<open>HH:MM\<close>; one timestamp is known; base64 payloads are decoded with \<open>b64decode\<close>;
  \<^verbatim>\<open>DATA_LENGTH_256\<close> is 256; and each external field type accepts any value under a wire
  name, the value itself being what is stored.
\<close>

definition digit :: "char \<Rightarrow> nat option" where
  "digit c =
     (if 48 \<le> (of_char c :: nat) \<and> (of_char c :: nat) \<le> 57
      then Some (of_char c - 48) else None)"

definition two_digits :: "char \<Rightarrow> char \<Rightarrow> nat option" where
  "two_digits a b =
     (case digit a of
        None \<Rightarrow> None
      | Some x \<Rightarrow> (case digit b of None \<Rightarrow> None | Some y \<Rightarrow> Some (x * 10 + y)))"

fun sample_time :: "json \<Rightarrow> string + time" where
  "sample_time (JStr [a, b, c, d, e]) =
     (case two_digits a b of
        None \<Rightarrow> Inl ''time_parsing''
      | Some h \<Rightarrow>
          (case two_digits d e of
             None \<Rightarrow> Inl ''time_parsing''
           | Some m \<Rightarrow>
               (if c = CHR '':'' \<and> h < 24 \<and> m < 60 then Inr (Time h m 0 0 None)
                else Inl ''time_parsing'')))"
| "sample_time (JStr s) = Inl ''time_parsing''"
| "sample_time j = Inl ''time_type''"

fun sample_datetime :: "json \<Rightarrow> string + datetime" where
  "sample_datetime (JStr s) =
     (if s = ''2024-05-17T09:30:00Z''
      then Inr (Datetime 2024 5 17 (Time 9 30 0 0 (Some 0)))
      else Inl ''datetime_from_date_parsing'')"
| "sample_datetime j = Inl ''datetime_type''"

fun sample_base64 :: "json \<Rightarrow> string + bytes" where
  "sample_base64 (JStr s) =
     (case b64decode s of None \<Rightarrow> Inl ''base64_decode'' | Some bs \<Rightarrow> Inr bs)"
| "sample_base64 j = Inl ''bytes_type''"

definition sample_secret :: "json \<Rightarrow> string + AosSensitiveBytes" where
  "sample_secret j =
     (case sample_base64 j of Inl t \<Rightarrow> Inl t | Inr bs \<Rightarrow> Inr (AosSensitiveBytes bs))"

definition sample_repr_bytes :: "bytes \<Rightarrow> string" where
  "sample_repr_bytes bs = ''b'' @ [CHR 0x27] @ map (\<lambda>w. char_of (unat w)) bs @ [CHR 0x27]"

definition any_field :: "string \<Rightarrow> (string \<times> json) list \<Rightarrow> json res" where
  "any_field alias kvs = required alias Inr kvs"

definition sample_ext :: "json ext" where
  "sample_ext =
     \<lparr>str_as_int = (\<lambda>s. Inl ''int_parsing''),
      float_as_int = (\<lambda>f. Inl ''int_from_float''),
      literal_by_equality = True,
      validate_time = sample_time,
      validate_datetime = sample_datetime,
      validate_Base64Bytes = sample_base64,
      serialize_Base64Bytes = b64encode,
      repr_str = (\<lambda>s. [CHR 0x27] @ s @ [CHR 0x27]),
      repr_bytes = sample_repr_bytes,
      DATA_LENGTH_256 = 256,
      validate_AosSensitiveBytes = sample_secret,
      TypeAosFileSize = any_field ''size'',
      TypeAosSha256 = any_field ''sha256'',
      TypeAosUrlsList = any_field ''urls'',
      TypeComponentAnnotationsOptional = with_default ''annotations'' JNull Inr,
      TypeComponentType = any_field ''type'',
      TypeLayerIdMandatory = any_field ''id'',
      TypeProviderIdMandatory = any_field ''providerId'',
      TypeServiceIdMandatory = any_field ''id'',
      TypeVersionMandatory = any_field ''version'',
      TypeComponentId = any_field ''id'',
      TypeServiceServiceIdMandatory = any_field ''serviceId'',
      TypeNodeIdMandatory = any_field ''nodeId'',
      TypeNodeDesiredStatus = any_field ''state'',
      TypeLayerDigest = any_field ''digest'',
      TypeSubjectSubjectIdMandatory = any_field ''subjectId'',
      TypeInstanceNoMandatory = any_field ''instance'',
      TypeAosSystemIdMandatory = any_field ''systemId'',
      UnitConfig = Inr\<rparr>"

section \<open>Sample documents\<close>

text \<open>The payload of a state message, without its \<^verbatim>\<open>messageType\<close>.\<close>

definition new_state_body :: "(string \<times> json) list" where
  "new_state_body =
     [(''serviceId'', JStr ''svc''), (''subjectId'', JStr ''subj''), (''instance'', JInt 0),
      (''stateChecksum'', JStr ''abc''), (''state'', JStr ''{}'')]"

text \<open>The decoded \<^verbatim>\<open>desiredStatus\<close> that changes nothing, and a message with one payload member.\<close>

definition no_change :: "'v AosDesiredStatus" where
  "no_change =
     \<lparr>status_message_type = ''desiredStatus'', nodes = None, unit_config = None,
       components = None, layers = None, services = None, instances = None,
       fota_schedule = None, sota_schedule = None, certificates = None,
       certificate_chains = None\<rparr>"

definition desired_status_with :: "string \<Rightarrow> json \<Rightarrow> json" where
  "desired_status_with k v = JObj [(''messageType'', JStr ''desiredStatus''), (k, v)]"

text \<open>A time slot, and a schedule rule with a timetable for Monday.\<close>

definition working_hours :: json where
  "working_hours = JObj [(''start'', JStr ''08:00''), (''end'', JStr ''17:30'')]"

definition monday_rule :: "(string \<times> json) list" where
  "monday_rule =
     [(''ttl'', JInt 3600), (''type'', JStr ''timetable''),
      (''timetable'', JArr [JObj [(''dayOfWeek'', JInt 1), (''timeSlots'', JArr [working_hours])]])]"

text \<open>
  A desired instance with the two identities, a signature with a given algorithm (the
  value is the base64 text of three bytes), and a decryption descriptor.
\<close>

definition instance_with :: "(string \<times> json) list \<Rightarrow> (string \<times> json) list" where
  "instance_with kvs = [(''serviceId'', JStr ''svc''), (''subjectId'', JStr ''subj'')] @ kvs"

definition sign_with_alg :: "string \<Rightarrow> (string \<times> json) list" where
  "sign_with_alg a =
     [(''chainName'', JStr ''online''), (''alg'', JStr a), (''value'', JStr ''TWFu''),
      (''trustedTimestamp'', JStr ''2024-05-17T09:30:00Z'')]"

definition sample_decryption_info :: AosDecryptionInfo where
  "sample_decryption_info =
     \<lparr>block_alg = ''AES256/CBC/pkcs7'', block_iv = AosSensitiveBytes [77, 97],
      block_key = AosSensitiveBytes [77, 97, 110], asym_alg = ''RSA/PKCS1v1_5'',
      receiver_info = \<lparr>serial = ''01'', issuer = [77]\<rparr>\<rparr>"

section \<open>Facts about the combinators\<close>

lemma errors_of_ap: "errors_of (ap f x) = errors_of f @ errors_of x"
  by (cases f; cases x) (simp_all add: errors_of_def)

lemma isl_ap: "isl (ap f x) = (isl f \<or> isl x)"
  by (cases f; cases x) simp_all

lemma isl_errors_of: "errors_of r \<noteq> [] \<Longrightarrow> isl r"
  by (cases r) (simp_all add: errors_of_def)

lemma ap_Inr_iff: "ap f x = Inr y \<longleftrightarrow> (\<exists>g a. f = Inr g \<and> x = Inr a \<and> y = g a)"
  by (cases f; cases x) auto

lemma at_loc_Inr_iff: "at_loc l r = Inr v \<longleftrightarrow> r = Inr v"
  by (cases r) (simp_all add: at_loc_def)

lemma required_Inr_iff:
  "required alias v kvs = Inr x \<longleftrightarrow> (\<exists>j. obj_get alias kvs = Some j \<and> v j = Inr x)"
  by (simp add: required_def at_loc_Inr_iff split: option.splits)

lemma with_default_Inr_iff:
  "with_default alias d v kvs = Inr x \<longleftrightarrow>
     (case obj_get alias kvs of None \<Rightarrow> x = d | Some j \<Rightarrow> v j = Inr x)"
  by (auto simp: with_default_def at_loc_Inr_iff split: option.splits)

lemma literal_str_Inr_iff: "literal_str vs j = Inr s \<longleftrightarrow> j = JStr s \<and> s \<in> set vs"
  by (cases j) (auto simp: fail_def)

lemma float_int_value_Some_iff: "float_int_value f = Some i \<longleftrightarrow> f = Finite (of_int i)"
  by (cases f) auto

lemma float_int_value_whole: "float_int_value (Finite 6) = Some 6"
  by simp

lemma float_int_value_fraction: "float_int_value (Finite (13 / 2)) = None"
proof -
  have "\<lfloor>13 / 2 :: rat\<rfloor> = 6"
    by (rule floor_unique) simp_all
  then show ?thesis by simp
qed

lemma literal_int_Inr_iff:
  "literal_int E vs j = Inr i \<longleftrightarrow> literal_value E j = Some i \<and> i \<in> set vs"
  by (auto simp: literal_int_def fail_def split: option.splits)

lemma literal_value_6_iff:
  "literal_value E j = Some 6 \<longleftrightarrow>
     j = JInt 6 \<or> literal_by_equality E \<and> j = JFloat (Finite 6)"
  by (cases j) (auto simp: float_int_value_Some_iff)


section \<open>Facts about base64\<close>

lemma b64_alphabet_length: "length b64_alphabet = 64"
  by (simp add: b64_alphabet_def)

lemma b64_alphabet_distinct: "distinct b64_alphabet"
  by (simp add: b64_alphabet_def)

lemma b64_value_char: "n < 64 \<Longrightarrow> b64_value (b64_char n) = Some n"
  unfolding b64_value_def b64_char_def
  using map_of_zip_nth [of b64_alphabet "[0..<64]" n]
  by (simp add: b64_alphabet_length b64_alphabet_distinct)

lemma b64_char_not_pad: "n < 64 \<Longrightarrow> b64_char n \<noteq> CHR ''=''"
proof -
  assume "n < 64"
  then have "b64_char n \<in> set b64_alphabet"
    by (simp add: b64_char_def b64_alphabet_length)
  moreover have "CHR ''='' \<notin> set b64_alphabet"
    by (simp add: b64_alphabet_def)
  ultimately show ?thesis by auto
qed

lemma unat_byte: "unat (a :: 8 word) < 256"
  using unsigned_less [of a, where 'a = nat] by simp

lemma div_4096: "(n::nat) div 4096 = n div 64 div 64"
  by (simp add: div_mult2_eq [symmetric])

lemma div_262144: "(n::nat) div 262144 = n div 64 div 64 div 64"
  by (simp add: div_mult2_eq [symmetric])

lemma sextets_1: "n div 262144 * 64 + n div 4096 mod 64 = (n::nat) div 4096"
  by (simp only: div_4096 div_262144 div_mult_mod_eq)

lemma sextets_2: "n div 4096 * 64 + n div 64 mod 64 = (n::nat) div 64"
  by (simp only: div_4096 div_mult_mod_eq)

lemma sextets_3: "n div 64 * 64 + n mod 64 = (n::nat)"
  by (simp only: div_mult_mod_eq)

lemma div_4096_16: "(n::nat) div 4096 div 16 = n div 65536"
  by (simp add: div_mult2_eq [symmetric])

lemma div_64_1024: "(n::nat) div 64 div 1024 = n div 65536"
  by (simp add: div_mult2_eq [symmetric])

lemma div_64_4: "(n::nat) div 64 div 4 = n div 256"
  by (simp add: div_mult2_eq [symmetric])

lemma div_65536: "(n::nat) div 65536 = n div 256 div 256"
  by (simp add: div_mult2_eq [symmetric])

lemma group_split: "a * 65536 + b * 256 + c = (a * 256 + b) * 256 + (c::nat)"
  by simp

lemma group_lo: "c < 256 \<Longrightarrow> (a * 65536 + b * 256 + c) mod 256 = (c::nat)"
  by (simp only: group_split mod_mult_self3 mod_less)

lemma group_div_256: "c < 256 \<Longrightarrow> (a * 65536 + b * 256 + c) div 256 = a * 256 + (b::nat)"
  by (simp only: group_split; simp)

lemma group_mid: "b < 256 \<Longrightarrow> c < 256 \<Longrightarrow> (a * 65536 + b * 256 + c) div 256 mod 256 = (b::nat)"
  by (simp only: group_div_256; simp)

lemma group_hi: "b < 256 \<Longrightarrow> c < 256 \<Longrightarrow> (a * 65536 + b * 256 + c) div 65536 = (a::nat)"
  by (simp only: div_65536 group_div_256; simp)

lemma group_top: "a < 256 \<Longrightarrow> b < 256 \<Longrightarrow> c < 256 \<Longrightarrow> (a * 65536 + b * 256 + c) div 262144 < (64::nat)"
proof -
  assume a: "a < 256" and b: "b < 256" and c: "c < 256"
  have "(a * 65536 + b * 256 + c) div 262144 = (a * 65536 + b * 256 + c) div 65536 div 4"
    by (simp add: div_mult2_eq [symmetric])
  also have "\<dots> = a div 4" by (simp only: group_hi [OF b c])
  also have "\<dots> < 64" using a by simp
  finally show ?thesis .
qed


lemma b64decode_quad:
  assumes "x0 < 64" "x1 < 64" "x2 < 64" "x3 < 64"
  shows "b64decode (b64_char x0 # b64_char x1 # b64_char x2 # b64_char x3 # cs) =
     (case b64decode cs of
        None \<Rightarrow> None
      | Some bs \<Rightarrow>
          Some (of_nat ((((x0 * 64 + x1) * 64 + x2) * 64 + x3) div 65536) #
                of_nat ((((x0 * 64 + x1) * 64 + x2) * 64 + x3) div 256 mod 256) #
                of_nat ((((x0 * 64 + x1) * 64 + x2) * 64 + x3) mod 256) # bs))"
  using assms by (simp add: b64_value_char b64_char_not_pad Let_def split: option.split)

lemma b64decode_pad1:
  assumes "x0 < 64" "x1 < 64" "x2 < 64"
  shows "b64decode [b64_char x0, b64_char x1, b64_char x2, CHR ''=''] =
     Some [of_nat (((x0 * 64 + x1) * 64 + x2) div 1024),
           of_nat (((x0 * 64 + x1) * 64 + x2) div 4 mod 256)]"
  using assms by (simp add: b64_value_char b64_char_not_pad Let_def)

lemma b64decode_pad2:
  assumes "x0 < 64" "x1 < 64"
  shows "b64decode [b64_char x0, b64_char x1, CHR ''='', CHR ''=''] =
     Some [of_nat ((x0 * 64 + x1) div 16)]"
  using assms by (simp add: b64_value_char b64_char_not_pad)

lemma mod_64_less: "(m::nat) mod 64 < 64"
  by simp

lemma b64decode_b64encode: "b64decode (b64encode bs) = Some bs"
proof (induction bs rule: b64encode.induct)
  case (1 a b c bs)
  let ?n = "unat a * 65536 + unat b * 256 + unat c"
  have top: "?n div 262144 < 64"
    by (rule group_top [OF unat_byte unat_byte unat_byte])
  have bytes: "of_nat (?n div 65536) = a" "of_nat (?n div 256 mod 256) = b" "of_nat (?n mod 256) = c"
    by (simp_all only: group_hi [OF unat_byte unat_byte] group_mid [OF unat_byte unat_byte]
        group_lo [OF unat_byte] of_nat_unat ucast_id)
  show ?case
    by (simp only: b64encode.simps Let_def
        b64decode_quad [OF top mod_64_less mod_64_less mod_64_less]
        sextets_1 sextets_2 sextets_3 bytes 1 option.case)
next
  case (2 a b)
  let ?n = "unat a * 65536 + unat b * 256"
  have top: "?n div 262144 < 64"
    using group_top [OF unat_byte [of a] unat_byte [of b], of 0] by simp
  have hi: "?n div 65536 = unat a"
    using group_hi [OF unat_byte [of b], of 0 "unat a"] by simp
  have mid: "?n div 256 mod 256 = unat b"
    using group_mid [OF unat_byte [of b], of 0 "unat a"] by simp
  have bytes: "of_nat (?n div 64 div 1024) = a" "of_nat (?n div 64 div 4 mod 256) = b"
    by (simp_all only: div_64_1024 div_64_4 hi mid of_nat_unat ucast_id)
  show ?case
    by (simp only: b64encode.simps Let_def
        b64decode_pad1 [OF top mod_64_less mod_64_less] sextets_1 sextets_2 bytes)
next
  case (3 a)
  let ?n = "unat a * 65536"
  have top: "?n div 262144 < 64"
    using group_top [OF unat_byte [of a], of 0 0] by simp
  have hi: "?n div 65536 = unat a" by simp
  have bytes: "of_nat (?n div 4096 div 16) = a"
    by (simp only: div_4096_16 hi of_nat_unat ucast_id)
  show ?case
    by (simp only: b64encode.simps Let_def
        b64decode_pad2 [OF top mod_64_less] sextets_1 bytes)
next
  case 4
  show ?case by simp
qed

section \<open>Facts about field lookup\<close>

lemmas eval_defs = required_def with_default_def obj_get_def at_loc_def fail_def lift_err_def
  validate_int_def optional_list_def optional_model_def errors_of_def

lemma obj_get_append_single:
  "obj_get k (kvs @ [(k', v)]) = (if k = k' then Some v else obj_get k kvs)"
  by (simp add: obj_get_def)

lemma errors_of_required_literal_str:
  "obj_get alias kvs = Some (JStr s) \<Longrightarrow> s \<notin> set vs \<Longrightarrow>
   errors_of (required alias (literal_str vs) kvs) = [Error ''literal_error'' [Key alias]]"
  by (simp add: eval_defs)

lemma required_append_other:
  "k \<noteq> k' \<Longrightarrow> required k v (kvs @ [(k', x)]) = required k v kvs"
  by (simp add: required_def obj_get_append_single)

lemma with_default_append_other:
  "k \<noteq> k' \<Longrightarrow> with_default k d v (kvs @ [(k', x)]) = with_default k d v kvs"
  by (simp add: with_default_def obj_get_append_single)

lemma required_append_same:
  "required k v (kvs @ [(k, x)]) = at_loc (Key k) (v x)"
  by (simp add: required_def obj_get_append_single)

lemmas sample_defs = sample_ext_def any_field_def two_digits_def digit_def

section \<open>Facts about the field types\<close>

lemma validate_items_length:
  "validate_items v i js = Inr xs \<Longrightarrow> length xs = length js"
  by (induction js arbitrary: i xs) (auto simp: ap_Inr_iff)

lemma validate_list_Inr_iff:
  "validate_list m v j = Inr xs \<longleftrightarrow>
     (\<exists>js. j = JArr js \<and> validate_items v 0 js = Inr xs \<and>
        (case m of Some k \<Rightarrow> k \<le> length xs | None \<Rightarrow> True))"
  by (cases j) (auto simp: fail_def split: sum.splits option.splits)

lemma validate_int_Inr_iff:
  "validate_int E bs j = Inr i \<longleftrightarrow> coerce_int E j = Inr i \<and> check_bounds bs i = Inr i"
proof -
  have "check_bounds bs k = Inr i \<Longrightarrow> k = i" for k
    by (induction bs) (auto simp: fail_def split: option.splits)
  then show ?thesis
    by (auto simp: validate_int_def split: sum.splits)
qed

lemma check_bounds_priority:
  "check_bounds [Ge 0, Lt 1000000] i = Inr i \<longleftrightarrow> 0 \<le> i \<and> i < 1000000"
  by (auto simp: fail_def)

lemma check_bounds_num_instances: "check_bounds [Gt 0] i = Inr i \<longleftrightarrow> 0 < i"
  by (auto simp: fail_def)

lemma b64decode_Man: "b64decode ''TWFu'' = Some [77, 97, 110]"
  by (simp add: b64_value_def b64_alphabet_def upt_rec)

section \<open>The claims\<close>

text \<open>
  C3. Discriminator correctness: an object whose \<^verbatim>\<open>messageType\<close> is the string
  \<^verbatim>\<open>"newState"\<close> never decodes as \<^verbatim>\<open>AosUpdateState\<close>, and one whose \<^verbatim>\<open>messageType\<close> is
  \<^verbatim>\<open>"updateState"\<close> never decodes as \<^verbatim>\<open>AosNewState\<close>, whatever the other members are; the
  violation reported is a \<^verbatim>\<open>literal_error\<close> at \<^verbatim>\<open>messageType\<close>.
\<close>

theorem discriminator_correctness:
  "(obj_get ''messageType'' kvs = Some (JStr ''newState'') \<longrightarrow>
      isl (decode_AosUpdateState E (JObj kvs)) \<and>
      Error ''literal_error'' [Key ''messageType'']
        \<in> set (errors_of (decode_AosUpdateState E (JObj kvs)))) \<and>
   (obj_get ''messageType'' kvs = Some (JStr ''updateState'') \<longrightarrow>
      isl (decode_AosNewState E (JObj kvs)) \<and>
      Error ''literal_error'' [Key ''messageType'']
        \<in> set (errors_of (decode_AosNewState E (JObj kvs))))"
proof (intro conjI impI)
  assume h: "obj_get ''messageType'' kvs = Some (JStr ''newState'')"
  have e: "errors_of (required ''messageType'' (literal_str [''updateState'']) kvs) =
      [Error ''literal_error'' [Key ''messageType'']]"
    by (rule errors_of_required_literal_str [OF h]) simp
  show m: "Error ''literal_error'' [Key ''messageType'']
      \<in> set (errors_of (decode_AosUpdateState E (JObj kvs)))"
    by (simp add: state_fields_def errors_of_ap e)
  show "isl (decode_AosUpdateState E (JObj kvs))"
    by (rule isl_errors_of) (use m in auto)
next
  assume h: "obj_get ''messageType'' kvs = Some (JStr ''updateState'')"
  have e: "errors_of (required ''messageType'' (literal_str [''newState'']) kvs) =
      [Error ''literal_error'' [Key ''messageType'']]"
    by (rule errors_of_required_literal_str [OF h]) simp
  show m: "Error ''literal_error'' [Key ''messageType'']
      \<in> set (errors_of (decode_AosNewState E (JObj kvs)))"
    by (simp add: state_fields_def errors_of_ap e)
  show "isl (decode_AosNewState E (JObj kvs))"
    by (rule isl_errors_of) (use m in auto)
qed

text \<open>
  The same payload is valid for both classes: with the tag \<^verbatim>\<open>newState\<close> it decodes as
  \<^verbatim>\<open>AosNewState\<close> and not as \<^verbatim>\<open>AosUpdateState\<close>, with the tag \<^verbatim>\<open>updateState\<close> the other way
  round.
\<close>

theorem discriminator_correctness_witness:
  "decode_AosNewState sample_ext (JObj ((''messageType'', JStr ''newState'') # new_state_body)) =
     Inr \<lparr>message_type = ''newState'', service_id = JStr ''svc'', subject_id = JStr ''subj'',
       instance_no = JInt 0, checksum = ''abc'', state = ''{}''\<rparr> \<and>
   isl (decode_AosUpdateState sample_ext
     (JObj ((''messageType'', JStr ''newState'') # new_state_body))) \<and>
   decode_AosUpdateState sample_ext
       (JObj ((''messageType'', JStr ''updateState'') # new_state_body)) =
     Inr \<lparr>message_type = ''updateState'', service_id = JStr ''svc'',
       subject_id = JStr ''subj'', instance_no = JInt 0, checksum = ''abc'', state = ''{}''\<rparr> \<and>
   isl (decode_AosNewState sample_ext
     (JObj ((''messageType'', JStr ''updateState'') # new_state_body)))"
  using discriminator_correctness
      [of "(''messageType'', JStr ''newState'') # new_state_body" sample_ext]
    discriminator_correctness
      [of "(''messageType'', JStr ''updateState'') # new_state_body" sample_ext]
  by (simp add: new_state_body_def state_fields_def sample_ext_def any_field_def eval_defs)

text \<open>
  C4. Decoding an \<^verbatim>\<open>AosUnitHeader\<close> succeeds only when the \<^verbatim>\<open>version\<close> member equals the
  integer 6, and the decoded version is then the integer 6. The member equals 6 when it is
  the JSON integer 6; where the lookup of a literal falls back on equality, also when it is
  the float \<^verbatim>\<open>6.0\<close>, which Python holds equal to 6. Every other value of \<^verbatim>\<open>version\<close> (5, a
  string, a boolean, \<open>null\<close>, any other float) is the violation \<^verbatim>\<open>literal_error\<close> at
  \<^verbatim>\<open>version\<close>, and an absent member is the violation \<^verbatim>\<open>missing\<close>: the field has no default.
\<close>

theorem header_version_gate:
  "(decode_AosUnitHeader E j = Inr h \<longleftrightarrow>
      (\<exists>kvs s. j = JObj kvs \<and>
         (obj_get ''version'' kvs = Some (JInt 6) \<or>
          literal_by_equality E \<and> obj_get ''version'' kvs = Some (JFloat (Finite 6))) \<and>
         TypeAosSystemIdMandatory E kvs = Inr s \<and> h = \<lparr>version = 6, system_id = s\<rparr>)) \<and>
   (\<forall>kvs v. j = JObj kvs \<and> obj_get ''version'' kvs = Some v \<and>
        v \<noteq> JInt 6 \<and> v \<noteq> JFloat (Finite 6) \<longrightarrow>
      Error ''literal_error'' [Key ''version''] \<in> set (errors_of (decode_AosUnitHeader E j))) \<and>
   (\<forall>kvs. j = JObj kvs \<and> obj_get ''version'' kvs = None \<longrightarrow>
      Error ''missing'' [Key ''version''] \<in> set (errors_of (decode_AosUnitHeader E j)))"
proof (intro conjI allI impI)
  show "decode_AosUnitHeader E j = Inr h \<longleftrightarrow>
      (\<exists>kvs s. j = JObj kvs \<and>
         (obj_get ''version'' kvs = Some (JInt 6) \<or>
          literal_by_equality E \<and> obj_get ''version'' kvs = Some (JFloat (Finite 6))) \<and>
         TypeAosSystemIdMandatory E kvs = Inr s \<and> h = \<lparr>version = 6, system_id = s\<rparr>)"
    by (cases j)
      (auto simp: fail_def ap_Inr_iff required_Inr_iff literal_int_Inr_iff literal_value_6_iff)
next
  fix kvs v
  assume a: "j = JObj kvs \<and> obj_get ''version'' kvs = Some v \<and>
    v \<noteq> JInt 6 \<and> v \<noteq> JFloat (Finite 6)"
  then have "literal_value E v \<noteq> Some 6"
    by (simp add: literal_value_6_iff)
  then have "literal_int E [6] v = fail ''literal_error''"
    by (auto simp: literal_int_def split: option.splits)
  with a have "errors_of (required ''version'' (literal_int E [6]) kvs) =
      [Error ''literal_error'' [Key ''version'']]"
    by (simp add: eval_defs)
  with a show "Error ''literal_error'' [Key ''version'']
      \<in> set (errors_of (decode_AosUnitHeader E j))"
    by (simp add: errors_of_ap)
next
  fix kvs
  assume a: "j = JObj kvs \<and> obj_get ''version'' kvs = None"
  then have "errors_of (required ''version'' (literal_int E [6]) kvs) =
      [Error ''missing'' [Key ''version'']]"
    by (simp add: required_def errors_of_def)
  with a show "Error ''missing'' [Key ''version'']
      \<in> set (errors_of (decode_AosUnitHeader E j))"
    by (simp add: errors_of_ap)
qed

text \<open>
  Version 6 decodes and version 5 does not. The float \<^verbatim>\<open>6.0\<close> decodes to the integer 6 where
  the lookup falls back on equality, and is a \<^verbatim>\<open>literal_error\<close> where it does not; the float
  \<^verbatim>\<open>6.5\<close> and the string \<^verbatim>\<open>"6"\<close> are rejected either way.
\<close>

theorem header_version_gate_witness:
  "decode_AosUnitHeader sample_ext (JObj [(''version'', JInt 6), (''systemId'', JStr ''unit-1'')]) =
     Inr \<lparr>version = 6, system_id = JStr ''unit-1''\<rparr> \<and>
   (\<nexists>h. decode_AosUnitHeader sample_ext
       (JObj [(''version'', JInt 5), (''systemId'', JStr ''unit-1'')]) = Inr h) \<and>
   Error ''literal_error'' [Key ''version''] \<in> set (errors_of (decode_AosUnitHeader sample_ext
       (JObj [(''version'', JInt 5), (''systemId'', JStr ''unit-1'')]))) \<and>
   decode_AosUnitHeader sample_ext
       (JObj [(''version'', JFloat (Finite 6)), (''systemId'', JStr ''unit-1'')]) =
     Inr \<lparr>version = 6, system_id = JStr ''unit-1''\<rparr> \<and>
   decode_AosUnitHeader (sample_ext\<lparr>literal_by_equality := False\<rparr>)
       (JObj [(''version'', JFloat (Finite 6)), (''systemId'', JStr ''unit-1'')]) =
     Inl [Error ''literal_error'' [Key ''version'']] \<and>
   decode_AosUnitHeader sample_ext
       (JObj [(''version'', JFloat (Finite (13 / 2))), (''systemId'', JStr ''unit-1'')]) =
     Inl [Error ''literal_error'' [Key ''version'']] \<and>
   decode_AosUnitHeader sample_ext
       (JObj [(''version'', JStr ''6''), (''systemId'', JStr ''unit-1'')]) =
     Inl [Error ''literal_error'' [Key ''version'']] \<and>
   decode_AosUnitHeader sample_ext (JObj [(''systemId'', JStr ''unit-1'')]) =
     Inl [Error ''missing'' [Key ''version'']]"
  using header_version_gate
      [of sample_ext "JObj [(''version'', JInt 6), (''systemId'', JStr ''unit-1'')]"
        "\<lparr>version = 6, system_id = JStr ''unit-1''\<rparr>"]
    header_version_gate
      [of sample_ext "JObj [(''version'', JInt 5), (''systemId'', JStr ''unit-1'')]"]
  by (simp add: sample_ext_def any_field_def eval_defs literal_int_def
      float_int_value_whole float_int_value_fraction del: float_int_value.simps)

text \<open>
  C9. The only required member of a \<^verbatim>\<open>desiredStatus\<close> message is \<^verbatim>\<open>messageType\<close>: the object
  that holds it alone decodes, and every payload field of the record is \<^verbatim>\<open>None\<close>; the empty
  object fails with \<^verbatim>\<open>missing\<close> at \<^verbatim>\<open>messageType\<close> and nothing else.
\<close>

theorem desired_status_only_message_type:
  "decode_AosDesiredStatus E (JObj [(''messageType'', JStr ''desiredStatus'')]) =
     Inr \<lparr>status_message_type = ''desiredStatus'', nodes = None, unit_config = None,
       components = None, layers = None, services = None, instances = None,
       fota_schedule = None, sota_schedule = None, certificates = None,
       certificate_chains = None\<rparr> \<and>
   decode_AosDesiredStatus E (JObj []) = Inl [Error ''missing'' [Key ''messageType'']]"
  by (simp add: eval_defs)

text \<open>
  C2. The top-level list fields of \<^verbatim>\<open>desiredStatus\<close> (\<^verbatim>\<open>nodes\<close>, \<^verbatim>\<open>components\<close>, \<^verbatim>\<open>layers\<close>,
  \<^verbatim>\<open>services\<close>, \<^verbatim>\<open>instances\<close>, \<^verbatim>\<open>certificates\<close>, \<^verbatim>\<open>certificateChains\<close>) on the three inputs of
  the claim. Omitted, a field decodes to \<^verbatim>\<open>None\<close>; an empty list decodes to the empty list,
  distinct from \<^verbatim>\<open>None\<close>. An explicit \<open>null\<close> does not decode to \<^verbatim>\<open>None\<close>: the annotation is
  \<^verbatim>\<open>list[...]\<close>, not an optional one, so \<open>null\<close> is a \<^verbatim>\<open>list_type\<close> violation and the whole
  message is rejected, although the field descriptions of \<^verbatim>\<open>services\<close> and \<^verbatim>\<open>instances\<close> say
  "If absent or null - do nothing".
\<close>

theorem desired_status_absent_null_empty:
  "decode_AosDesiredStatus E (JObj [(''messageType'', JStr ''desiredStatus'')]) = Inr no_change \<and>
   decode_AosDesiredStatus E (desired_status_with ''nodes'' JNull) =
     Inl [Error ''list_type'' [Key ''nodes'']] \<and>
   decode_AosDesiredStatus E (desired_status_with ''components'' JNull) =
     Inl [Error ''list_type'' [Key ''components'']] \<and>
   decode_AosDesiredStatus E (desired_status_with ''layers'' JNull) =
     Inl [Error ''list_type'' [Key ''layers'']] \<and>
   decode_AosDesiredStatus E (desired_status_with ''services'' JNull) =
     Inl [Error ''list_type'' [Key ''services'']] \<and>
   decode_AosDesiredStatus E (desired_status_with ''instances'' JNull) =
     Inl [Error ''list_type'' [Key ''instances'']] \<and>
   decode_AosDesiredStatus E (desired_status_with ''certificates'' JNull) =
     Inl [Error ''list_type'' [Key ''certificates'']] \<and>
   decode_AosDesiredStatus E (desired_status_with ''certificateChains'' JNull) =
     Inl [Error ''list_type'' [Key ''certificateChains'']] \<and>
   decode_AosDesiredStatus E (desired_status_with ''nodes'' (JArr [])) =
     Inr (no_change\<lparr>nodes := Some []\<rparr>) \<and>
   decode_AosDesiredStatus E (desired_status_with ''components'' (JArr [])) =
     Inr (no_change\<lparr>components := Some []\<rparr>) \<and>
   decode_AosDesiredStatus E (desired_status_with ''layers'' (JArr [])) =
     Inr (no_change\<lparr>layers := Some []\<rparr>) \<and>
   decode_AosDesiredStatus E (desired_status_with ''services'' (JArr [])) =
     Inr (no_change\<lparr>services := Some []\<rparr>) \<and>
   decode_AosDesiredStatus E (desired_status_with ''instances'' (JArr [])) =
     Inr (no_change\<lparr>instances := Some []\<rparr>) \<and>
   decode_AosDesiredStatus E (desired_status_with ''certificates'' (JArr [])) =
     Inr (no_change\<lparr>certificates := Some []\<rparr>) \<and>
   decode_AosDesiredStatus E (desired_status_with ''certificateChains'' (JArr [])) =
     Inr (no_change\<lparr>certificate_chains := Some []\<rparr>)"
  by (simp add: eval_defs no_change_def desired_status_with_def)

text \<open>
  C10. \<^verbatim>\<open>AosScheduleRule\<close> puts no bound on \<^verbatim>\<open>ttl\<close>. For every integer \<open>n\<close>, the rule with that
  ttl and type \<^verbatim>\<open>force\<close> decodes with \<open>ttl = n\<close>; and whenever an object decodes as a rule,
  the same object with its \<^verbatim>\<open>ttl\<close> replaced by any integer \<open>n\<close> (a later member overrides an
  earlier one) decodes to the same rule with \<open>ttl = n\<close>.
\<close>

theorem schedule_rule_ttl_unbounded:
  "decode_AosScheduleRule E (JObj [(''ttl'', JInt n), (''type'', JStr ''force'')]) =
     Inr \<lparr>ttl = n, type = ''force'', timetable = None\<rparr> \<and>
   (decode_AosScheduleRule E (JObj kvs) = Inr r \<longrightarrow>
      decode_AosScheduleRule E (JObj (kvs @ [(''ttl'', JInt n)])) = Inr (r\<lparr>ttl := n\<rparr>))"
proof (intro conjI impI)
  show "decode_AosScheduleRule E (JObj [(''ttl'', JInt n), (''type'', JStr ''force'')]) =
     Inr \<lparr>ttl = n, type = ''force'', timetable = None\<rparr>"
    by (simp add: eval_defs)
next
  assume "decode_AosScheduleRule E (JObj kvs) = Inr r"
  then obtain l t tt where
    f: "required ''ttl'' (validate_int E []) kvs = Inr l"
       "required ''type'' (literal_str [''force'', ''trigger'', ''timetable'']) kvs = Inr t"
       "with_default ''timetable'' None
          (\<lambda>j. ap (Inr Some) (validate_list None (decode_AosTimetableItem E) j)) kvs = Inr tt"
    and r: "r = \<lparr>ttl = l, type = t, timetable = tt\<rparr>"
    by (auto simp: ap_Inr_iff)
  have "required ''ttl'' (validate_int E []) (kvs @ [(''ttl'', JInt n)]) = Inr n"
    by (simp add: required_append_same validate_int_def at_loc_def)
  then show "decode_AosScheduleRule E (JObj (kvs @ [(''ttl'', JInt n)])) = Inr (r\<lparr>ttl := n\<rparr>)"
    using f r by (simp add: required_append_other with_default_append_other)
qed

theorem schedule_rule_ttl_unbounded_witness:
  "decode_AosScheduleRule sample_ext (JObj [(''ttl'', JInt 0), (''type'', JStr ''force'')]) =
     Inr \<lparr>ttl = 0, type = ''force'', timetable = None\<rparr> \<and>
   decode_AosScheduleRule sample_ext (JObj (monday_rule @ [(''ttl'', JInt (- 5))])) =
     Inr \<lparr>ttl = - 5, type = ''timetable'',
       timetable = Some [\<lparr>day_of_week = 1,
         time_slots = [\<lparr>start = Time 8 0 0 0 None, end_ = Time 17 30 0 0 None\<rparr>]\<rparr>]\<rparr>"
  using schedule_rule_ttl_unbounded [of sample_ext 0]
    schedule_rule_ttl_unbounded [of sample_ext "- 5" monday_rule
      "\<lparr>ttl = 3600, type = ''timetable'',
       timetable = Some [\<lparr>day_of_week = 1,
         time_slots = [\<lparr>start = Time 8 0 0 0 None, end_ = Time 17 30 0 0 None\<rparr>]\<rparr>]\<rparr>"]
  by (simp add: monday_rule_def working_hours_def sample_defs eval_defs)

text \<open>
  C1, as the code has it. \<^verbatim>\<open>AosScheduleRule\<close> validates \<^verbatim>\<open>ttl\<close>, \<^verbatim>\<open>type\<close> and \<^verbatim>\<open>timetable\<close> each on
  its own and has no validator that relates them. For each of the three types: the rule
  without a \<^verbatim>\<open>timetable\<close> member decodes, with timetable \<^verbatim>\<open>None\<close>; the rule whose timetable is
  a list of valid items, empty or not, decodes with that list; and an object that decodes
  as a rule still decodes, with the same ttl and timetable, when its type is replaced by
  any of the three.
\<close>

theorem schedule_rule_fields_independent:
  "t \<in> {''force'', ''trigger'', ''timetable''} \<longrightarrow>
     decode_AosScheduleRule E (JObj [(''ttl'', JInt n), (''type'', JStr t)]) =
       Inr \<lparr>ttl = n, type = t, timetable = None\<rparr> \<and>
     (\<forall>js items. validate_items (decode_AosTimetableItem E) 0 js = Inr items \<longrightarrow>
        decode_AosScheduleRule E
            (JObj [(''ttl'', JInt n), (''type'', JStr t), (''timetable'', JArr js)]) =
          Inr \<lparr>ttl = n, type = t, timetable = Some items\<rparr>) \<and>
     (\<forall>kvs r. decode_AosScheduleRule E (JObj kvs) = Inr r \<longrightarrow>
        decode_AosScheduleRule E (JObj (kvs @ [(''type'', JStr t)])) = Inr (r\<lparr>type := t\<rparr>))"
proof (intro impI conjI allI)
  assume t: "t \<in> {''force'', ''trigger'', ''timetable''}"
  then have lit: "literal_str [''force'', ''trigger'', ''timetable''] (JStr t) = Inr t"
    by auto
  show "decode_AosScheduleRule E (JObj [(''ttl'', JInt n), (''type'', JStr t)]) =
       Inr \<lparr>ttl = n, type = t, timetable = None\<rparr>"
    using lit by (simp add: eval_defs)
  show "decode_AosScheduleRule E
            (JObj [(''ttl'', JInt n), (''type'', JStr t), (''timetable'', JArr js)]) =
          Inr \<lparr>ttl = n, type = t, timetable = Some items\<rparr>"
    if "validate_items (decode_AosTimetableItem E) 0 js = Inr items" for js items
    using lit that by (simp add: eval_defs)
  show "decode_AosScheduleRule E (JObj (kvs @ [(''type'', JStr t)])) = Inr (r\<lparr>type := t\<rparr>)"
    if "decode_AosScheduleRule E (JObj kvs) = Inr r" for kvs r
  proof -
    from that obtain l t' tt where
      f: "required ''ttl'' (validate_int E []) kvs = Inr l"
         "with_default ''timetable'' None
            (\<lambda>j. ap (Inr Some) (validate_list None (decode_AosTimetableItem E) j)) kvs = Inr tt"
      and r: "r = \<lparr>ttl = l, type = t', timetable = tt\<rparr>"
      by (auto simp: ap_Inr_iff)
    have "required ''type'' (literal_str [''force'', ''trigger'', ''timetable''])
        (kvs @ [(''type'', JStr t)]) = Inr t"
      using lit by (simp add: required_append_same at_loc_def)
    then show ?thesis
      using f r by (simp add: required_append_other with_default_append_other)
  qed
qed

theorem schedule_rule_fields_independent_witness:
  "decode_AosScheduleRule sample_ext (JObj [(''ttl'', JInt 60), (''type'', JStr ''timetable'')]) =
     Inr \<lparr>ttl = 60, type = ''timetable'', timetable = None\<rparr> \<and>
   decode_AosScheduleRule sample_ext (JObj (monday_rule @ [(''type'', JStr ''trigger'')])) =
     Inr \<lparr>ttl = 3600, type = ''trigger'',
       timetable = Some [\<lparr>day_of_week = 1,
         time_slots = [\<lparr>start = Time 8 0 0 0 None, end_ = Time 17 30 0 0 None\<rparr>]\<rparr>]\<rparr>"
  using schedule_rule_fields_independent [of "''timetable''" sample_ext 60]
    schedule_rule_fields_independent [of "''trigger''" sample_ext 60]
  by (simp add: monday_rule_def working_hours_def sample_defs eval_defs)

text \<open>
  C1, as stated, asks that a rule of type \<^verbatim>\<open>timetable\<close> with an empty timetable fail, and
  that a rule of type \<^verbatim>\<open>force\<close> with a non-empty timetable fail. Both decode.
\<close>

theorem schedule_rule_conditional_timetable_counterexample:
  "decode_AosScheduleRule sample_ext
       (JObj [(''ttl'', JInt 3600), (''type'', JStr ''timetable''), (''timetable'', JArr [])]) =
     Inr \<lparr>ttl = 3600, type = ''timetable'', timetable = Some []\<rparr> \<and>
   decode_AosScheduleRule sample_ext
       (JObj [(''ttl'', JInt 3600), (''type'', JStr ''force''),
          (''timetable'',
             JArr [JObj [(''dayOfWeek'', JInt 1), (''timeSlots'', JArr [working_hours])]])]) =
     Inr \<lparr>ttl = 3600, type = ''force'',
       timetable = Some [\<lparr>day_of_week = 1,
         time_slots = [\<lparr>start = Time 8 0 0 0 None, end_ = Time 17 30 0 0 None\<rparr>]\<rparr>]\<rparr>"
  by (simp add: working_hours_def sample_defs eval_defs)

text \<open>
  C5. The numeric bounds of \<^verbatim>\<open>AosDesiredInstanceInfo\<close>. Whenever an object decodes, the
  priority \<open>p\<close> satisfies \<open>0 \<le> p < 1000000\<close> and the number of instances is positive; an
  integer member is stored as it is, so priority 1000000 and \<^verbatim>\<open>numInstances\<close> 0 cannot
  decode; and when \<^verbatim>\<open>numInstances\<close> is omitted the record holds 1. Conversely, with valid
  identities and a priority in the range (999999, say), the object with \<^verbatim>\<open>numInstances\<close> and
  \<^verbatim>\<open>labels\<close> omitted decodes.
\<close>

theorem desired_instance_bounds:
  "(decode_AosDesiredInstanceInfo E (JObj kvs) = Inr r \<longrightarrow>
      0 \<le> priority r \<and> priority r < 1000000 \<and> 0 < num_instances r \<and>
      (\<forall>p. obj_get ''priority'' kvs = Some (JInt p) \<longrightarrow> priority r = p) \<and>
      (\<forall>n. obj_get ''numInstances'' kvs = Some (JInt n) \<longrightarrow> num_instances r = n) \<and>
      (obj_get ''numInstances'' kvs = None \<longrightarrow> num_instances r = 1)) \<and>
   (TypeServiceServiceIdMandatory E kvs = Inr s \<and>
    TypeSubjectSubjectIdMandatory E kvs = Inr u \<and>
    obj_get ''priority'' kvs = Some (JInt p) \<and> 0 \<le> p \<and> p < 1000000 \<and>
    obj_get ''numInstances'' kvs = None \<and> obj_get ''labels'' kvs = None \<longrightarrow>
      decode_AosDesiredInstanceInfo E (JObj kvs) =
        Inr \<lparr>instance_service_id = s, instance_subject_id = u, priority = p,
          num_instances = 1, labels = None\<rparr>)"
proof (intro conjI impI)
  assume "decode_AosDesiredInstanceInfo E (JObj kvs) = Inr r"
  then obtain p n where
    p: "required ''priority'' (validate_int E [Ge 0, Lt 1000000]) kvs = Inr p"
    and n: "with_default ''numInstances'' 1 (validate_int E [Gt 0]) kvs = Inr n"
    and r: "priority r = p" "num_instances r = n"
    by (auto simp: ap_Inr_iff)
  from p obtain j where j: "obj_get ''priority'' kvs = Some j" "coerce_int E j = Inr p"
    and cb: "check_bounds [Ge 0, Lt 1000000] p = Inr p"
    by (auto simp: required_Inr_iff validate_int_Inr_iff simp del: check_bounds.simps)
  from cb have pb: "0 \<le> p" "p < 1000000"
    by (simp_all only: check_bounds_priority)
  from n have nv: "obj_get ''numInstances'' kvs = Some (JInt m) \<Longrightarrow> n = m \<and> 0 < n" for m
    by (auto simp: with_default_Inr_iff validate_int_Inr_iff check_bounds_num_instances
        simp del: check_bounds.simps)
  from n have nd: "obj_get ''numInstances'' kvs = None \<Longrightarrow> n = 1"
    by (simp add: with_default_Inr_iff)
  from n have nb: "0 < n"
    by (cases "obj_get ''numInstances'' kvs")
      (auto simp: with_default_Inr_iff validate_int_Inr_iff check_bounds_num_instances
        simp del: check_bounds.simps)
  show "0 \<le> priority r" "priority r < 1000000" "0 < num_instances r"
    using r pb nb by simp_all
  show "\<forall>p. obj_get ''priority'' kvs = Some (JInt p) \<longrightarrow> priority r = p"
    using j r by auto
  show "\<forall>n. obj_get ''numInstances'' kvs = Some (JInt n) \<longrightarrow> num_instances r = n"
    using nv r by auto
  show "num_instances r = 1" if "obj_get ''numInstances'' kvs = None"
    using nd [OF that] r by simp
next
  assume "TypeServiceServiceIdMandatory E kvs = Inr s \<and>
    TypeSubjectSubjectIdMandatory E kvs = Inr u \<and>
    obj_get ''priority'' kvs = Some (JInt p) \<and> 0 \<le> p \<and> p < 1000000 \<and>
    obj_get ''numInstances'' kvs = None \<and> obj_get ''labels'' kvs = None"
  then show "decode_AosDesiredInstanceInfo E (JObj kvs) =
        Inr \<lparr>instance_service_id = s, instance_subject_id = u, priority = p,
          num_instances = 1, labels = None\<rparr>"
    by (simp add: required_def with_default_def validate_int_def at_loc_def)
qed

theorem desired_instance_bounds_witness:
  "decode_AosDesiredInstanceInfo sample_ext (JObj (instance_with [(''priority'', JInt 999999)])) =
     Inr \<lparr>instance_service_id = JStr ''svc'', instance_subject_id = JStr ''subj'',
       priority = 999999, num_instances = 1, labels = None\<rparr> \<and>
   isl (decode_AosDesiredInstanceInfo sample_ext
     (JObj (instance_with [(''priority'', JInt 1000000)]))) \<and>
   isl (decode_AosDesiredInstanceInfo sample_ext
     (JObj (instance_with [(''priority'', JInt 5), (''numInstances'', JInt 0)])))"
  using desired_instance_bounds
      [of sample_ext "instance_with [(''priority'', JInt 999999)]" _ "JStr ''svc''"
        "JStr ''subj''" 999999]
  by (simp add: instance_with_def sample_defs eval_defs)


text \<open>
  C6. \<^verbatim>\<open>AosTimetableItem\<close> checks \<^verbatim>\<open>timeSlots\<close> and not \<^verbatim>\<open>dayOfWeek\<close>. Every decoded item has
  at least one time slot, and an empty \<^verbatim>\<open>timeSlots\<close> list is the violation \<^verbatim>\<open>too_short\<close>. The
  field \<^verbatim>\<open>day_of_week\<close> is a plain \<^verbatim>\<open>int\<close>: with valid time slots, every integer \<open>d\<close> decodes
  and is stored, also outside the range 1 to 7 that the field's description gives.
\<close>

theorem timetable_item_checks:
  "(decode_AosTimetableItem E j = Inr r \<longrightarrow> time_slots r \<noteq> []) \<and>
   decode_AosTimetableItem E (JObj [(''dayOfWeek'', JInt d), (''timeSlots'', JArr [])]) =
     Inl [Error ''too_short'' [Key ''timeSlots'']] \<and>
   (validate_items (decode_AosTimeSlot E) 0 (s # ss) = Inr slots \<longrightarrow>
      decode_AosTimetableItem E
          (JObj [(''dayOfWeek'', JInt d), (''timeSlots'', JArr (s # ss))]) =
        Inr \<lparr>day_of_week = d, time_slots = slots\<rparr>)"
proof (intro conjI impI)
  assume "decode_AosTimetableItem E j = Inr r"
  then obtain kvs where
    "required ''timeSlots'' (validate_list (Some 1) (decode_AosTimeSlot E)) kvs =
       Inr (time_slots r)"
    by (cases j) (auto simp: ap_Inr_iff fail_def)
  then have "1 \<le> length (time_slots r)"
    by (auto simp: required_Inr_iff validate_list_Inr_iff)
  then show "time_slots r \<noteq> []"
    by auto
next
  show "decode_AosTimetableItem E (JObj [(''dayOfWeek'', JInt d), (''timeSlots'', JArr [])]) =
     Inl [Error ''too_short'' [Key ''timeSlots'']]"
    by (simp add: eval_defs)
next
  assume v: "validate_items (decode_AosTimeSlot E) 0 (s # ss) = Inr slots"
  then have "length slots = Suc (length ss)"
    by (simp only: validate_items_length [OF v] list.size)
  then have "validate_list (Some 1) (decode_AosTimeSlot E) (JArr (s # ss)) = Inr slots"
    using v by (simp del: validate_items.simps)
  then show "decode_AosTimetableItem E
          (JObj [(''dayOfWeek'', JInt d), (''timeSlots'', JArr (s # ss))]) =
        Inr \<lparr>day_of_week = d, time_slots = slots\<rparr>"
    by (simp add: eval_defs del: validate_list.simps)
qed

theorem timetable_item_checks_witness:
  "decode_AosTimetableItem sample_ext
       (JObj [(''dayOfWeek'', JInt 8), (''timeSlots'', JArr [working_hours])]) =
     Inr \<lparr>day_of_week = 8,
       time_slots = [\<lparr>start = Time 8 0 0 0 None, end_ = Time 17 30 0 0 None\<rparr>]\<rparr> \<and>
   decode_AosTimetableItem sample_ext
       (JObj [(''dayOfWeek'', JInt 0), (''timeSlots'', JArr [working_hours])]) =
     Inr \<lparr>day_of_week = 0,
       time_slots = [\<lparr>start = Time 8 0 0 0 None, end_ = Time 17 30 0 0 None\<rparr>]\<rparr>"
  using timetable_item_checks [of sample_ext _ _ 8 working_hours "[]"
      "[\<lparr>start = Time 8 0 0 0 None, end_ = Time 17 30 0 0 None\<rparr>]"]
    timetable_item_checks [of sample_ext _ _ 0 working_hours "[]"
      "[\<lparr>start = Time 8 0 0 0 None, end_ = Time 17 30 0 0 None\<rparr>]"]
  by (simp add: working_hours_def sample_defs eval_defs)

text \<open>
  C8. \<^verbatim>\<open>AosSign.alg\<close> is validated against the closed set of \<^verbatim>\<open>RSA/SHA256\<close> and \<^verbatim>\<open>EC/SHA256\<close>:
  any other string fails the decode with a \<^verbatim>\<open>literal_error\<close> whose location is \<^verbatim>\<open>alg\<close>, and
  the \<^verbatim>\<open>alg\<close> of every decoded signature is the string of the object, one of the two.
\<close>

theorem sign_alg_closed_set:
  "(obj_get ''alg'' kvs = Some (JStr a) \<and> a \<notin> {''RSA/SHA256'', ''EC/SHA256''} \<longrightarrow>
      isl (decode_AosSign E (JObj kvs)) \<and>
      Error ''literal_error'' [Key ''alg''] \<in> set (errors_of (decode_AosSign E (JObj kvs)))) \<and>
   (decode_AosSign E j = Inr r \<longrightarrow>
      alg r \<in> {''RSA/SHA256'', ''EC/SHA256''} \<and>
      (\<exists>kvs'. j = JObj kvs' \<and> obj_get ''alg'' kvs' = Some (JStr (alg r))))"
proof (intro conjI impI)
  assume h: "obj_get ''alg'' kvs = Some (JStr a) \<and> a \<notin> {''RSA/SHA256'', ''EC/SHA256''}"
  have e: "errors_of (required ''alg'' (literal_str [''RSA/SHA256'', ''EC/SHA256'']) kvs) =
      [Error ''literal_error'' [Key ''alg'']]"
    by (rule errors_of_required_literal_str [of _ _ a]) (use h in auto)
  show m: "Error ''literal_error'' [Key ''alg'']
      \<in> set (errors_of (decode_AosSign E (JObj kvs)))"
    by (simp add: errors_of_ap e)
  show "isl (decode_AosSign E (JObj kvs))"
    by (rule isl_errors_of) (use m in auto)
next
  assume d: "decode_AosSign E j = Inr r"
  then obtain kvs' where j: "j = JObj kvs'"
    and "required ''alg'' (literal_str [''RSA/SHA256'', ''EC/SHA256'']) kvs' = Inr (alg r)"
    by (cases j) (auto simp: ap_Inr_iff fail_def)
  then have a: "obj_get ''alg'' kvs' = Some (JStr (alg r))"
    "alg r \<in> set [''RSA/SHA256'', ''EC/SHA256'']"
    by (auto simp: required_Inr_iff literal_str_Inr_iff)
  show "alg r \<in> {''RSA/SHA256'', ''EC/SHA256''}"
    using a(2) by simp
  show "\<exists>kvs'. j = JObj kvs' \<and> obj_get ''alg'' kvs' = Some (JStr (alg r))"
    using j a(1) by blast
qed

theorem sign_alg_closed_set_witness:
  "decode_AosSign sample_ext (JObj (sign_with_alg ''RSA/SHA512'')) =
     Inl [Error ''literal_error'' [Key ''alg'']] \<and>
   decode_AosSign sample_ext (JObj (sign_with_alg ''RSA/SHA256'')) =
     Inr \<lparr>chain_name = ''online'', alg = ''RSA/SHA256'', sign_value = [77, 97, 110],
       timestamp = Datetime 2024 5 17 (Time 9 30 0 0 (Some 0)), ocsp_values = None\<rparr>"
  using sign_alg_closed_set [of "sign_with_alg ''RSA/SHA512''" "''RSA/SHA512''" sample_ext]
  by (simp add: sign_with_alg_def sample_ext_def eval_defs b64decode_Man
      del: b64decode.simps)

text \<open>
  C7. In the JSON-mode dump of an \<^verbatim>\<open>AosDecryptionInfo\<close>, under the field name or the alias,
  \<^verbatim>\<open>block_key\<close> and \<^verbatim>\<open>block_iv\<close> are the text that \<^verbatim>\<open>dump_secret\<close> returns, and decoding that text
  as base64 gives back exactly the secret bytes. The rendering of the record for logs
  does not depend on the secrets: it is the same text whatever the key and the
  initialization vector are. This is how "never contains the literal key bytes" is stated:
  a rendering that did contain them would change with them.
\<close>

theorem decryption_info_secrets:
  "obj_get (wire_name by_alias ''block_key'' ''blockKey'')
       (dump_json_AosDecryptionInfo E by_alias r) = Some (JStr (dump_secret (block_key r))) \<and>
   b64decode (dump_secret (block_key r)) = Some (get_secret_value (block_key r)) \<and>
   obj_get (wire_name by_alias ''block_iv'' ''blockIv'')
       (dump_json_AosDecryptionInfo E by_alias r) = Some (JStr (dump_secret (block_iv r))) \<and>
   b64decode (dump_secret (block_iv r)) = Some (get_secret_value (block_iv r)) \<and>
   repr_AosDecryptionInfo E (r\<lparr>block_key := k, block_iv := iv\<rparr>) = repr_AosDecryptionInfo E r"
  by (cases by_alias)
    (simp_all add: dump_json_AosDecryptionInfo_def wire_name_def obj_get_def dump_secret_def
      b64decode_b64encode repr_AosDecryptionInfo_def repr_AosSensitiveBytes_def)

theorem decryption_info_secrets_witness:
  "obj_get ''blockKey'' (dump_json_AosDecryptionInfo sample_ext True sample_decryption_info) =
     Some (JStr ''TWFu'') \<and>
   b64decode ''TWFu'' = Some [77, 97, 110] \<and>
   obj_get ''blockIv'' (dump_json_AosDecryptionInfo sample_ext True sample_decryption_info) =
     Some (JStr ''TWE='') \<and>
   b64decode ''TWE='' = Some [77, 97]"
  using decryption_info_secrets [of True sample_ext sample_decryption_info]
  by (simp add: sample_decryption_info_def dump_secret_def wire_name_def b64_char_def
      b64_alphabet_def del: b64decode.simps)

end
